theory Spec2Isabelle
  imports Complex_Main
begin

section \<open>Payment gateway orchestration: saleor/payment/gateway.py\<close>

text \<open>
  The module composes three decorators (\<open>payment_postprocess\<close>, \<open>raise_payment_error\<close>,
  \<open>require_active_payment\<close>) around six operations that call a payment plugin and record
  the outcome as a \<open>Transaction\<close>. Python exceptions are values of the type \<open>exn\<close>; a
  function that can raise returns \<open>exn + 'a\<close> with \<open>Inl\<close> for the exception. The database
  table of transactions and the calls made to collaborators are an explicit \<open>world\<close> that
  every effectful function takes and returns.
\<close>

subsection \<open>Exceptions and records\<close>

text \<open>
  The exception classes the module names or can meet. \<open>UnboundLocalError\<close> is what Python
  raises when a local variable is read before it was assigned; \<open>InvalidOperation\<close> is
  what the \<open>decimal\<close> module raises when a NaN is compared by order. All of them are subclasses
  of \<open>Exception\<close>, so the \<open>except Exception\<close> clause of \<open>_fetch_gateway_response\<close>
  catches each one.
\<close>

datatype exn =
    PaymentError string
  | ImproperlyConfigured string
  | GatewayError string
  | AttributeError string
  | UnboundLocalError string
  | ValueError string
  | InvalidOperation
  | OtherException string

datatype TransactionKind = AUTH | CAPTURE | REFUND | VOID | CONFIRM

text \<open>
  A value of Python's \<open>Decimal\<close>, the type of the amount arguments: a finite number,
  an infinity, or a NaN (quiet and signalling NaN behave alike under the comparisons the
  module makes).
\<close>

datatype Decimal = Finite rat | Infinity | NegInfinity | NaN

text \<open>
  The comparisons \<open>a <= b\<close> and \<open>a > b\<close> of two \<open>Decimal\<close>s under the default
  context: with a NaN on either side they raise \<open>InvalidOperation\<close>; otherwise the
  infinities are below and above every finite number.
\<close>

fun decimal_le :: "Decimal \<Rightarrow> Decimal \<Rightarrow> exn + bool" where
  "decimal_le NaN b = Inl InvalidOperation"
| "decimal_le a NaN = Inl InvalidOperation"
| "decimal_le NegInfinity b = Inr True"
| "decimal_le a Infinity = Inr True"
| "decimal_le Infinity b = Inr False"
| "decimal_le a NegInfinity = Inr False"
| "decimal_le (Finite a) (Finite b) = Inr (a \<le> b)"

definition decimal_gt :: "Decimal \<Rightarrow> Decimal \<Rightarrow> exn + bool" where
  "decimal_gt a b = (case decimal_le a b of Inl e \<Rightarrow> Inl e | Inr le \<Rightarrow> Inr (\<not> le))"

text \<open>A member of the \<open>Gateway\<close> class of \<open>core.payments\<close>, as \<open>Gateway(name)\<close> returns it.\<close>

datatype Gateway = GatewayMember string

datatype CreditCardInfo = CreditCardInfo string

text \<open>
  Modelled from the spec: the class \<open>GatewayResponse\<close> is not in the source file. The spec
  gives it a success flag, a transaction token, optional card info and an optional error
  detail.
\<close>

record GatewayResponse =
  gr_is_success :: bool
  gr_transaction_id :: string
  gr_card_info :: "CreditCardInfo option"
  gr_error :: "string option"

text \<open>
  Modelled from the spec: the model class \<open>Transaction\<close> is not in the source file. The
  fields are the ones the source reads (\<open>is_success\<close>, \<open>error\<close>, \<open>token\<close>, \<open>payment\<close>,
  and \<open>kind\<close> in the queryset filter); \<open>txn_payment\<close> is the primary key of the owning
  payment.
\<close>

record Transaction =
  txn_payment :: nat
  kind :: TransactionKind
  token :: string
  is_success :: bool
  error :: "string option"

text \<open>
  Modelled from the spec: the model class \<open>Payment\<close> is not in the source file. The fields
  are the attributes the source reads. The methods \<open>get_charge_amount()\<close> and
  \<open>can_refund()\<close> are represented by the value they return for this payment. The
  amounts stored on a payment are finite numbers.
\<close>

record Payment =
  pk :: nat
  gateway :: "string option"
  is_active :: bool
  captured_amount :: rat
  get_charge_amount :: rat
  can_refund :: bool

text \<open>
  Modelled from the spec: \<open>PaymentData\<close> and \<open>create_payment_information\<close> are not in the
  source file. The snapshot keeps the arguments the source passes; an argument the call
  site omits is \<open>None\<close> (\<open>False\<close> for \<open>store_source\<close>).
\<close>

record PaymentData =
  pd_payment :: nat
  pd_token :: "string option"
  pd_amount :: "Decimal option"
  pd_store_source :: bool

definition create_payment_information ::
  "Payment \<Rightarrow> string option \<Rightarrow> Decimal option \<Rightarrow> bool \<Rightarrow> PaymentData" where
  "create_payment_information payment payment_token amount store_source =
     \<lparr>pd_payment = pk payment, pd_token = payment_token, pd_amount = amount,
      pd_store_source = store_source\<rparr>"

subsection \<open>Collaborators and the world\<close>

text \<open>The methods of the plugin manager that the six operations pass to the fetch step.\<close>

datatype plugin_method =
    Process_payment
  | Authorize_payment
  | Capture_payment
  | Refund_payment
  | Void_payment
  | Confirm_payment

text \<open>
  The collaborators that the source imports and that are not part of the file are
  parameters. \<open>Gateway_call\<close> is the constructor call \<open>Gateway(payment.gateway)\<close>, which
  returns a member or raises. \<open>clean_authorize\<close>, \<open>clean_capture\<close> and
  \<open>validate_gateway_response\<close> return \<open>None\<close> when they pass and \<open>Some e\<close> when they
  raise \<open>e\<close>. \<open>plugin_manager\<close> is the result of one plugin method on a gateway and a
  payment snapshot: a response, or an exception.
\<close>

record env =
  Gateway_call :: "string option \<Rightarrow> exn + Gateway"
  clean_authorize :: "Payment \<Rightarrow> exn option"
  clean_capture :: "Payment \<Rightarrow> Decimal \<Rightarrow> exn option"
  validate_gateway_response :: "GatewayResponse \<Rightarrow> exn option"
  plugin_manager :: "plugin_method \<Rightarrow> Gateway \<Rightarrow> PaymentData \<Rightarrow> exn + GatewayResponse"
  plugin_create_payment_form :: "Gateway \<Rightarrow> string \<Rightarrow> PaymentData \<Rightarrow> exn + string"
  plugin_list_payment_sources :: "Gateway \<Rightarrow> string \<Rightarrow> exn + string list"
  plugin_get_client_token :: "Gateway \<Rightarrow> PaymentData \<Rightarrow> exn + string"
  plugin_list_payment_gateways :: "exn + Gateway list"

text \<open>The calls to collaborators that the properties speak of, in the order they happen.\<close>

datatype call =
    GatewayLookup "string option"
  | PluginCall plugin_method Gateway PaymentData
  | UpdateCardDetails nat GatewayResponse
  | GatewayPostprocess Transaction nat

text \<open>
  \<open>transactions_db\<close> is the table of transactions in primary-key order, the order in
  which Django's \<open>first()\<close> reads a queryset whose model declares no other ordering (the
  model class is not part of the source file).
\<close>

record world =
  transactions_db :: "Transaction list"
  calls :: "call list"

type_synonym 'a comp = "world \<Rightarrow> (exn + 'a) \<times> world"

definition ret :: "'a \<Rightarrow> 'a comp" where
  "ret x w = (Inr x, w)"

definition raise :: "exn \<Rightarrow> 'a comp" where
  "raise e w = (Inl e, w)"

text \<open>Sequencing: an exception of the first statement ends the function.\<close>

definition bindE :: "'a comp \<Rightarrow> ('a \<Rightarrow> 'b comp) \<Rightarrow> 'b comp" where
  "bindE m f w = (case m w of (Inl e, w') \<Rightarrow> (Inl e, w') | (Inr x, w') \<Rightarrow> f x w')"

text \<open>A call to a collaborator that returns nothing and may raise.\<close>

definition check :: "exn option \<Rightarrow> unit comp" where
  "check r = (case r of None \<Rightarrow> ret () | Some e \<Rightarrow> raise e)"

text \<open>A call to a collaborator that returns a value or raises.\<close>

definition lift :: "exn + 'a \<Rightarrow> 'a comp" where
  "lift r w = (r, w)"

definition record_call :: "call \<Rightarrow> world \<Rightarrow> world" where
  "record_call c w = w\<lparr>calls := calls w @ [c]\<rparr>"

definition ERROR_MSG :: string where
  "ERROR_MSG = ''Oops! Something went wrong.''"

definition GENERIC_TRANSACTION_ERROR :: string where
  "GENERIC_TRANSACTION_ERROR = ''Transaction was unsuccessful''"

text \<open>Python's \<open>x or d\<close> on an optional string: \<open>None\<close> and the empty string are falsy.\<close>

definition py_or :: "string option \<Rightarrow> string \<Rightarrow> string" where
  "py_or x d = (case x of None \<Rightarrow> d | Some s \<Rightarrow> if s = [] then d else s)"

text \<open>
  Modelled from the spec: \<open>gateway_postprocess\<close> and \<open>update_card_details\<close> are not in the
  source file. What they change in the payment is not modelled; that they ran, and on
  what, is recorded.
\<close>

definition gateway_postprocess :: "Transaction \<Rightarrow> nat \<Rightarrow> world \<Rightarrow> world" where
  "gateway_postprocess txn payment w = record_call (GatewayPostprocess txn payment) w"

definition update_card_details :: "Payment \<Rightarrow> GatewayResponse \<Rightarrow> unit comp" where
  "update_card_details payment response w =
     (Inr (), record_call (UpdateCardDetails (pk payment) response) w)"

text \<open>
  Modelled from the spec: \<open>create_transaction\<close> is not in the source file. The spec says it
  builds and persists one \<open>Transaction\<close> of the given kind with
  \<open>is_success = (error is None and response.success)\<close>, and that a failed gateway call is
  recorded with the error message of the fetch step. The token is the response's when
  there is a response and the snapshot's otherwise.
\<close>

definition create_transaction ::
  "Payment \<Rightarrow> TransactionKind \<Rightarrow> PaymentData \<Rightarrow> string option \<Rightarrow> GatewayResponse option
     \<Rightarrow> Transaction comp" where
  "create_transaction payment k payment_information error_msg gateway_response w =
     (let txn = \<lparr>txn_payment = pk payment,
                 kind = k,
                 token = (case gateway_response of
                            Some r \<Rightarrow> gr_transaction_id r
                          | None \<Rightarrow> (case pd_token payment_information of
                                       Some t \<Rightarrow> t | None \<Rightarrow> [])),
                 is_success = (error_msg = None \<and>
                               (case gateway_response of
                                  Some r \<Rightarrow> gr_is_success r | None \<Rightarrow> False)),
                 error = (case error_msg of
                            Some m \<Rightarrow> Some m
                          | None \<Rightarrow> (case gateway_response of
                                       Some r \<Rightarrow> gr_error r | None \<Rightarrow> None))\<rparr>
      in (Inr txn, w\<lparr>transactions_db := transactions_db w @ [txn]\<rparr>))"

subsection \<open>The decorators\<close>

definition raise_payment_error :: "Transaction comp \<Rightarrow> Transaction comp" where
  "raise_payment_error fn w =
     (case fn w of
        (Inl e, w') \<Rightarrow> (Inl e, w')
      | (Inr result, w') \<Rightarrow>
          if \<not> is_success result
          then (Inl (PaymentError (py_or (error result) GENERIC_TRANSACTION_ERROR)), w')
          else (Inr result, w'))"

definition payment_postprocess :: "Transaction comp \<Rightarrow> Transaction comp" where
  "payment_postprocess fn w =
     (case fn w of
        (Inl e, w') \<Rightarrow> (Inl e, w')
      | (Inr txn, w') \<Rightarrow> (Inr txn, gateway_postprocess txn (txn_payment txn) w'))"

definition require_active_payment :: "(Payment \<Rightarrow> 'a comp) \<Rightarrow> Payment \<Rightarrow> 'a comp" where
  "require_active_payment fn payment =
     (if \<not> is_active payment
      then raise (PaymentError ''This payment is no longer active.'')
      else fn payment)"

subsection \<open>The private helpers\<close>

text \<open>
  \<open>_get_gateway\<close>. The handler of \<open>AttributeError\<close> builds its message from the local
  variable \<open>gateway\<close>, which the failed assignment in the \<open>try\<close> block never bound:
  evaluating the f-string raises \<open>UnboundLocalError\<close> before \<open>ImproperlyConfigured\<close> is
  constructed. Any other exception of the constructor call is not caught.
\<close>

definition get_gateway :: "env \<Rightarrow> Payment \<Rightarrow> Gateway comp" where
  "get_gateway env payment w =
     (let w1 = record_call (GatewayLookup (gateway payment)) w
      in case Gateway_call env (gateway payment) of
           Inr g \<Rightarrow> (Inr g, w1)
         | Inl e \<Rightarrow>
             (case e of
                AttributeError m \<Rightarrow>
                  (Inl (UnboundLocalError ''gateway''), w1)
              | _ \<Rightarrow> (Inl e, w1)))"

text \<open>The call \<open>fn(*args, **kwargs)\<close> of a plugin method inside the fetch step.\<close>

definition plugin_call :: "env \<Rightarrow> plugin_method \<Rightarrow> Gateway \<Rightarrow> PaymentData \<Rightarrow> GatewayResponse comp" where
  "plugin_call env m g payment_data w =
     (plugin_manager env m g payment_data, record_call (PluginCall m g payment_data) w)"

text \<open>
  \<open>_fetch_gateway_response\<close>: both \<open>except\<close> clauses give no response and \<open>ERROR_MSG\<close>;
  the function itself never raises.
\<close>

definition fetch_gateway_response ::
  "env \<Rightarrow> GatewayResponse comp \<Rightarrow> (GatewayResponse option \<times> string option) comp" where
  "fetch_gateway_response env fn w =
     (case fn w of
        (Inl e, w') \<Rightarrow>
          (case e of
             GatewayError m \<Rightarrow> (Inr (None, Some ERROR_MSG), w')
           | _ \<Rightarrow> (Inr (None, Some ERROR_MSG), w'))
      | (Inr response, w') \<Rightarrow>
          (case validate_gateway_response env response of
             None \<Rightarrow> (Inr (Some response, None), w')
           | Some e \<Rightarrow>
               (case e of
                  GatewayError m \<Rightarrow> (Inr (None, Some ERROR_MSG), w')
                | _ \<Rightarrow> (Inr (None, Some ERROR_MSG), w'))))"

text \<open>The related manager \<open>payment.transactions\<close>: the rows of this payment.\<close>

definition transactions :: "Payment \<Rightarrow> world \<Rightarrow> Transaction list" where
  "transactions payment w = filter (\<lambda>t. txn_payment t = pk payment) (transactions_db w)"

text \<open>
  \<open>_get_past_transaction_token\<close>. The message is a plain string literal in the source
  (it has no \<open>f\<close> prefix), so the braces and \<open>kind.value\<close> are part of the message.
\<close>

definition get_past_transaction_token :: "Payment \<Rightarrow> TransactionKind \<Rightarrow> string comp" where
  "get_past_transaction_token payment k w =
     (case find (\<lambda>t. kind t = k \<and> is_success t) (transactions payment w) of
        None \<Rightarrow> (Inl (PaymentError ''Cannot find successful {kind.value} transaction''), w)
      | Some txn \<Rightarrow> (Inr (token txn), w))"

definition validate_refund_amound :: "Payment \<Rightarrow> Decimal \<Rightarrow> unit comp" where
  "validate_refund_amound payment amount =
     bindE (lift (decimal_le amount (Finite 0))) (\<lambda>not_positive.
       if not_positive then raise (PaymentError ''Amount should be a positive number.'')
       else bindE (lift (decimal_gt amount (Finite (captured_amount payment)))) (\<lambda>more.
              if more then raise (PaymentError ''Cannot refund more than captured'')
              else ret ()))"

subsection \<open>The six operations\<close>

text \<open>
  Each operation is its undecorated body (suffix \<open>_fn\<close>, the \<open>fn\<close> of the decorators)
  under the decorator stack of the source, applied innermost first:
  \<open>require_active_payment\<close>, then \<open>raise_payment_error\<close>, then
  \<open>payment_postprocess\<close>.
\<close>

definition process_payment_fn :: "env \<Rightarrow> string \<Rightarrow> bool \<Rightarrow> Payment \<Rightarrow> Transaction comp" where
  "process_payment_fn env tok store_source payment =
     bindE (get_gateway env payment) (\<lambda>gateway.
       let payment_data = create_payment_information payment (Some tok) None store_source
       in bindE (fetch_gateway_response env
                   (plugin_call env Process_payment gateway payment_data))
            (\<lambda>(response, error).
               create_transaction payment CAPTURE payment_data error response))"

definition process_payment :: "env \<Rightarrow> Payment \<Rightarrow> string \<Rightarrow> bool \<Rightarrow> Transaction comp" where
  "process_payment env payment tok store_source =
     payment_postprocess (raise_payment_error
       (require_active_payment (process_payment_fn env tok store_source) payment))"

definition authorize_fn :: "env \<Rightarrow> string \<Rightarrow> bool \<Rightarrow> Payment \<Rightarrow> Transaction comp" where
  "authorize_fn env tok store_source payment =
     bindE (check (clean_authorize env payment)) (\<lambda>_.
     bindE (get_gateway env payment) (\<lambda>gateway.
       let payment_data = create_payment_information payment (Some tok) None store_source
       in bindE (fetch_gateway_response env
                   (plugin_call env Authorize_payment gateway payment_data))
            (\<lambda>(response, error).
               create_transaction payment AUTH payment_data error response)))"

definition authorize :: "env \<Rightarrow> Payment \<Rightarrow> string \<Rightarrow> bool \<Rightarrow> Transaction comp" where
  "authorize env payment tok store_source =
     payment_postprocess (raise_payment_error
       (require_active_payment (authorize_fn env tok store_source) payment))"

text \<open>
  \<open>capture\<close> reads \<open>response.card_info\<close> before it creates the transaction. When the
  fetch step gave no response, \<open>response\<close> is \<open>None\<close> and the attribute access raises
  \<open>AttributeError\<close>.
\<close>

definition capture_fn :: "env \<Rightarrow> Decimal option \<Rightarrow> bool \<Rightarrow> Payment \<Rightarrow> Transaction comp" where
  "capture_fn env amount store_source payment =
     (let amount = (case amount of None \<Rightarrow> Finite (get_charge_amount payment) | Some a \<Rightarrow> a)
      in bindE (check (clean_capture env payment amount)) (\<lambda>_.
         bindE (get_gateway env payment) (\<lambda>gateway.
         bindE (get_past_transaction_token payment AUTH) (\<lambda>tok.
           let payment_data =
                 create_payment_information payment (Some tok) (Some amount) store_source
           in bindE (fetch_gateway_response env
                       (plugin_call env Capture_payment gateway payment_data))
                (\<lambda>(response, error).
                   bindE (case response of
                            None \<Rightarrow> raise (AttributeError ''card_info'')
                          | Some r \<Rightarrow>
                              if gr_card_info r \<noteq> None
                              then update_card_details payment r
                              else ret ())
                     (\<lambda>_. create_transaction payment CAPTURE payment_data error
                             response))))))"

definition capture :: "env \<Rightarrow> Payment \<Rightarrow> Decimal option \<Rightarrow> bool \<Rightarrow> Transaction comp" where
  "capture env payment amount store_source =
     payment_postprocess (raise_payment_error
       (require_active_payment (capture_fn env amount store_source) payment))"

definition refund_fn :: "env \<Rightarrow> Decimal option \<Rightarrow> Payment \<Rightarrow> Transaction comp" where
  "refund_fn env amount payment =
     (let amount = (case amount of None \<Rightarrow> Finite (captured_amount payment) | Some a \<Rightarrow> a)
      in bindE (validate_refund_amound payment amount) (\<lambda>_.
         if \<not> can_refund payment
         then raise (PaymentError ''This payment cannot be refunded.'')
         else
         bindE (get_gateway env payment) (\<lambda>gateway.
         bindE (get_past_transaction_token payment CAPTURE) (\<lambda>tok.
           let payment_data =
                 create_payment_information payment (Some tok) (Some amount) False
           in bindE (fetch_gateway_response env
                       (plugin_call env Refund_payment gateway payment_data))
                (\<lambda>(response, error).
                   create_transaction payment REFUND payment_data error response)))))"

definition refund :: "env \<Rightarrow> Payment \<Rightarrow> Decimal option \<Rightarrow> Transaction comp" where
  "refund env payment amount =
     payment_postprocess (raise_payment_error
       (require_active_payment (refund_fn env amount) payment))"

definition void_fn :: "env \<Rightarrow> Payment \<Rightarrow> Transaction comp" where
  "void_fn env payment =
     bindE (get_gateway env payment) (\<lambda>gateway.
     bindE (get_past_transaction_token payment AUTH) (\<lambda>tok.
       let payment_data = create_payment_information payment (Some tok) None False
       in bindE (fetch_gateway_response env
                   (plugin_call env Void_payment gateway payment_data))
            (\<lambda>(response, error).
               create_transaction payment VOID payment_data error response)))"

definition void :: "env \<Rightarrow> Payment \<Rightarrow> Transaction comp" where
  "void env payment =
     payment_postprocess (raise_payment_error
       (require_active_payment (void_fn env) payment))"

definition confirm_fn :: "env \<Rightarrow> Payment \<Rightarrow> Transaction comp" where
  "confirm_fn env payment =
     bindE (get_gateway env payment) (\<lambda>gateway.
     bindE (get_past_transaction_token payment AUTH) (\<lambda>tok.
       let payment_data = create_payment_information payment (Some tok) None False
       in bindE (fetch_gateway_response env
                   (plugin_call env Confirm_payment gateway payment_data))
            (\<lambda>(response, error).
               create_transaction payment CONFIRM payment_data error response)))"

definition confirm :: "env \<Rightarrow> Payment \<Rightarrow> Transaction comp" where
  "confirm env payment =
     payment_postprocess (raise_payment_error
       (require_active_payment (confirm_fn env) payment))"

subsection \<open>The read operations\<close>

definition create_payment_form :: "env \<Rightarrow> Payment \<Rightarrow> string \<Rightarrow> string comp" where
  "create_payment_form env payment data =
     require_active_payment
       (\<lambda>payment.
          let payment_data = create_payment_information payment None None False
          in bindE (get_gateway env payment) (\<lambda>gateway.
               lift (plugin_create_payment_form env gateway data payment_data)))
       payment"

definition list_payment_sources :: "env \<Rightarrow> Gateway \<Rightarrow> string \<Rightarrow> string list comp" where
  "list_payment_sources env gw customer_id =
     lift (plugin_list_payment_sources env gw customer_id)"

definition get_client_token :: "env \<Rightarrow> Payment \<Rightarrow> string comp" where
  "get_client_token env payment =
     (let payment_data = create_payment_information payment None None False
      in bindE (get_gateway env payment) (\<lambda>gateway.
           lift (plugin_get_client_token env gateway payment_data)))"

definition list_gateways :: "env \<Rightarrow> Gateway list comp" where
  "list_gateways env = lift (plugin_list_payment_gateways env)"

subsection \<open>Vocabulary of the properties\<close>

text \<open>One call of one of the six mutating operations, with its arguments.\<close>

datatype operation =
    Process string bool
  | Authorize string bool
  | Capture "Decimal option" bool
  | Refund "Decimal option"
  | Void
  | Confirm

fun run_operation :: "env \<Rightarrow> operation \<Rightarrow> Payment \<Rightarrow> Transaction comp" where
  "run_operation env (Process tok store_source) payment =
     process_payment env payment tok store_source"
| "run_operation env (Authorize tok store_source) payment =
     authorize env payment tok store_source"
| "run_operation env (Capture amount store_source) payment =
     capture env payment amount store_source"
| "run_operation env (Refund amount) payment = refund env payment amount"
| "run_operation env Void payment = void env payment"
| "run_operation env Confirm payment = confirm env payment"

text \<open>The undecorated body of an operation.\<close>

fun operation_fn :: "env \<Rightarrow> operation \<Rightarrow> Payment \<Rightarrow> Transaction comp" where
  "operation_fn env (Process tok store_source) = process_payment_fn env tok store_source"
| "operation_fn env (Authorize tok store_source) = authorize_fn env tok store_source"
| "operation_fn env (Capture amount store_source) = capture_fn env amount store_source"
| "operation_fn env (Refund amount) = refund_fn env amount"
| "operation_fn env Void = void_fn env"
| "operation_fn env Confirm = confirm_fn env"

fun is_PluginCall :: "call \<Rightarrow> bool" where
  "is_PluginCall (PluginCall m g d) = True"
| "is_PluginCall _ = False"

fun is_GatewayPostprocess :: "call \<Rightarrow> bool" where
  "is_GatewayPostprocess (GatewayPostprocess t p) = True"
| "is_GatewayPostprocess _ = False"

text \<open>The plugin calls, and the runs of the post-processing hook, recorded in a world.\<close>

definition plugin_calls :: "world \<Rightarrow> call list" where
  "plugin_calls w = filter is_PluginCall (calls w)"

definition postprocess_calls :: "world \<Rightarrow> call list" where
  "postprocess_calls w = filter is_GatewayPostprocess (calls w)"

text \<open>The amount a refund call works with: the argument, or the captured amount.\<close>

definition refund_amount :: "Payment \<Rightarrow> Decimal option \<Rightarrow> Decimal" where
  "refund_amount payment amount =
     (case amount of None \<Rightarrow> Finite (captured_amount payment) | Some a \<Rightarrow> a)"

text \<open>The amount is a number \<open>x\<close> with \<open>0 < x \<le> captured_amount\<close>.\<close>

fun refundable_amount :: "Payment \<Rightarrow> Decimal \<Rightarrow> bool" where
  "refundable_amount payment (Finite x) = (0 < x \<and> x \<le> captured_amount payment)"
| "refundable_amount payment a = False"

subsection \<open>Concrete collaborators and payments\<close>

text \<open>
  A deployment with one registered gateway, \<open>dummy\<close>, whose plugin approves every call.
  The constructor call raises \<open>ValueError\<close> for any other name, as an enumeration does.
\<close>

definition approved :: GatewayResponse where
  "approved = \<lparr>gr_is_success = True, gr_transaction_id = ''gw-1'', gr_card_info = None,
               gr_error = None\<rparr>"

definition declined :: GatewayResponse where
  "declined = \<lparr>gr_is_success = False, gr_transaction_id = ''gw-2'', gr_card_info = None,
               gr_error = Some ''Card declined''\<rparr>"

definition env_ok :: env where
  "env_ok =
     \<lparr>Gateway_call = (\<lambda>name. if name = Some ''dummy'' then Inr (GatewayMember ''dummy'')
                              else Inl (ValueError ''not a valid Gateway'')),
      clean_authorize = (\<lambda>p. None),
      clean_capture = (\<lambda>p a. None),
      validate_gateway_response = (\<lambda>r. None),
      plugin_manager = (\<lambda>m g d. Inr approved),
      plugin_create_payment_form = (\<lambda>g data d. Inr ''form''),
      plugin_list_payment_sources = (\<lambda>g c. Inr []),
      plugin_get_client_token = (\<lambda>g d. Inr ''client-token''),
      plugin_list_payment_gateways = Inr [GatewayMember ''dummy'']\<rparr>"

text \<open>The same deployment with a plugin that declines, raises, or answers malformed.\<close>

definition env_declining :: env where
  "env_declining = env_ok\<lparr>plugin_manager := (\<lambda>m g d. Inr declined)\<rparr>"

definition env_raising :: env where
  "env_raising = env_ok\<lparr>plugin_manager := (\<lambda>m g d. Inl (OtherException ''timeout''))\<rparr>"

definition env_malformed :: env where
  "env_malformed =
     env_ok\<lparr>validate_gateway_response :=
              (\<lambda>r. Some (GatewayError ''Gateway needs to return a GatewayResponse obj''))\<rparr>"

text \<open>A deployment whose gateway class answers an unknown name with \<open>AttributeError\<close>.\<close>

definition env_attribute_error :: env where
  "env_attribute_error =
     env_ok\<lparr>Gateway_call :=
              (\<lambda>name. if name = Some ''dummy'' then Inr (GatewayMember ''dummy'')
                       else Inl (AttributeError ''Gateway''))\<rparr>"

definition payment_new :: Payment where
  "payment_new = \<lparr>pk = 1, gateway = Some ''dummy'', is_active = True, captured_amount = 0,
                   get_charge_amount = 100, can_refund = False\<rparr>"

definition payment_captured :: Payment where
  "payment_captured = \<lparr>pk = 1, gateway = Some ''dummy'', is_active = True,
                        captured_amount = 100, get_charge_amount = 0, can_refund = True\<rparr>"

definition payment_inactive :: Payment where
  "payment_inactive = payment_captured\<lparr>is_active := False\<rparr>"

definition payment_unknown_gateway :: Payment where
  "payment_unknown_gateway = payment_new\<lparr>gateway := Some ''nonexistent''\<rparr>"

definition payment_unset_gateway :: Payment where
  "payment_unset_gateway = payment_new\<lparr>gateway := None\<rparr>"

definition auth_txn :: Transaction where
  "auth_txn = \<lparr>txn_payment = 1, kind = AUTH, token = ''auth-1'', is_success = True,
                error = None\<rparr>"

definition capture_txn :: Transaction where
  "capture_txn = \<lparr>txn_payment = 1, kind = CAPTURE, token = ''cap-1'', is_success = True,
                   error = None\<rparr>"

definition world_empty :: world where
  "world_empty = \<lparr>transactions_db = [], calls = []\<rparr>"

definition world_authorized :: world where
  "world_authorized = \<lparr>transactions_db = [auth_txn], calls = []\<rparr>"

definition world_captured :: world where
  "world_captured = \<lparr>transactions_db = [auth_txn, capture_txn], calls = []\<rparr>"

section \<open>Properties\<close>

subsection \<open>Unfolding bundles and shared lemmas\<close>

lemmas comp_defs = bindE_def ret_def raise_def check_def lift_def record_call_def

lemmas helper_defs = get_gateway_def plugin_call_def fetch_gateway_response_def
  get_past_transaction_token_def validate_refund_amound_def create_transaction_def
  update_card_details_def create_payment_information_def transactions_def

lemmas decorator_defs = payment_postprocess_def raise_payment_error_def
  require_active_payment_def gateway_postprocess_def

lemmas operation_defs = process_payment_def process_payment_fn_def authorize_def
  authorize_fn_def capture_def capture_fn_def refund_def refund_fn_def void_def
  void_fn_def confirm_def confirm_fn_def

lemmas log_defs = postprocess_calls_def plugin_calls_def

text \<open>Every operation is its body under the same three decorators.\<close>

lemma run_operation_decorated:
  "run_operation env op payment =
     payment_postprocess (raise_payment_error
       (require_active_payment (operation_fn env op) payment))"
  by (cases op)
     (simp_all add: process_payment_def authorize_def capture_def refund_def void_def
        confirm_def)

text \<open>The guard of \<open>require_active_payment\<close> ends the call before the body starts.\<close>

lemma inactive_guard:
  "\<not> is_active payment \<Longrightarrow>
     payment_postprocess (raise_payment_error (require_active_payment fn payment)) w =
       (Inl (PaymentError ''This payment is no longer active.''), w)"
  by (simp add: decorator_defs raise_def)

text \<open>
  The body of an operation either returns the one transaction it appended to the table,
  or raises and leaves the table as it was; it never runs the post-processing hook.
\<close>

lemma process_payment_fn_shape:
  "process_payment_fn env tok store_source payment w = (r, w') \<Longrightarrow>
     postprocess_calls w' = postprocess_calls w \<and>
     (case r of Inr t \<Rightarrow> transactions_db w' = transactions_db w @ [t]
              | Inl e \<Rightarrow> transactions_db w' = transactions_db w)"
  unfolding process_payment_fn_def
  by (auto simp: comp_defs helper_defs log_defs Let_def
           split: sum.splits exn.splits option.splits prod.splits if_splits)

lemma authorize_fn_shape:
  "authorize_fn env tok store_source payment w = (r, w') \<Longrightarrow>
     postprocess_calls w' = postprocess_calls w \<and>
     (case r of Inr t \<Rightarrow> transactions_db w' = transactions_db w @ [t]
              | Inl e \<Rightarrow> transactions_db w' = transactions_db w)"
  unfolding authorize_fn_def
  by (auto simp: comp_defs helper_defs log_defs Let_def
           split: sum.splits exn.splits option.splits prod.splits if_splits)

lemma capture_fn_shape:
  "capture_fn env amount store_source payment w = (r, w') \<Longrightarrow>
     postprocess_calls w' = postprocess_calls w \<and>
     (case r of Inr t \<Rightarrow> transactions_db w' = transactions_db w @ [t]
              | Inl e \<Rightarrow> transactions_db w' = transactions_db w)"
  unfolding capture_fn_def
  by (auto simp: comp_defs helper_defs log_defs Let_def
           split: sum.splits exn.splits option.splits prod.splits if_splits)

lemma refund_fn_shape:
  "refund_fn env amount payment w = (r, w') \<Longrightarrow>
     postprocess_calls w' = postprocess_calls w \<and>
     (case r of Inr t \<Rightarrow> transactions_db w' = transactions_db w @ [t]
              | Inl e \<Rightarrow> transactions_db w' = transactions_db w)"
  unfolding refund_fn_def
  by (auto simp: comp_defs helper_defs log_defs Let_def
           split: sum.splits exn.splits option.splits prod.splits if_splits)

lemma void_fn_shape:
  "void_fn env payment w = (r, w') \<Longrightarrow>
     postprocess_calls w' = postprocess_calls w \<and>
     (case r of Inr t \<Rightarrow> transactions_db w' = transactions_db w @ [t]
              | Inl e \<Rightarrow> transactions_db w' = transactions_db w)"
  unfolding void_fn_def
  by (auto simp: comp_defs helper_defs log_defs Let_def
           split: sum.splits exn.splits option.splits prod.splits if_splits)

lemma confirm_fn_shape:
  "confirm_fn env payment w = (r, w') \<Longrightarrow>
     postprocess_calls w' = postprocess_calls w \<and>
     (case r of Inr t \<Rightarrow> transactions_db w' = transactions_db w @ [t]
              | Inl e \<Rightarrow> transactions_db w' = transactions_db w)"
  unfolding confirm_fn_def
  by (auto simp: comp_defs helper_defs log_defs Let_def
           split: sum.splits exn.splits option.splits prod.splits if_splits)

lemma operation_fn_shape:
  "operation_fn env op payment w = (r, w') \<Longrightarrow>
     postprocess_calls w' = postprocess_calls w \<and>
     (case r of Inr t \<Rightarrow> transactions_db w' = transactions_db w @ [t]
              | Inl e \<Rightarrow> transactions_db w' = transactions_db w)"
  by (cases op)
     (simp_all add: process_payment_fn_shape authorize_fn_shape capture_fn_shape
        refund_fn_shape void_fn_shape confirm_fn_shape)

text \<open>
  What the decorator stack does with the outcome of a body of that shape. When the table
  grew by \<open>t\<close>, the body returned \<open>t\<close>; \<open>raise_payment_error\<close> then raises for an
  unsuccessful \<open>t\<close>, and \<open>payment_postprocess\<close>, the outermost decorator, runs its hook
  only when nothing was raised below it.
\<close>

lemma decorated_outcome:
  assumes run: "payment_postprocess (raise_payment_error
                  (require_active_payment fn payment)) w = (r, w')"
    and shape: "\<And>r1 w1. fn payment w = (r1, w1) \<Longrightarrow>
                  postprocess_calls w1 = postprocess_calls w \<and>
                  (case r1 of Inr t \<Rightarrow> transactions_db w1 = transactions_db w @ [t]
                            | Inl e \<Rightarrow> transactions_db w1 = transactions_db w)"
    and grew: "transactions_db w' = transactions_db w @ [t]"
  shows "r = (if is_success t
              then Inr t
              else Inl (PaymentError (py_or (error t) GENERIC_TRANSACTION_ERROR)))
         \<and> postprocess_calls w' =
             postprocess_calls w @
               (if is_success t then [GatewayPostprocess t (txn_payment t)] else [])"
proof (cases "is_active payment")
  case False
  with run have "w' = w"
    by (simp add: decorator_defs raise_def)
  with grew show ?thesis by simp
next
  case True
  obtain r1 w1 where body: "fn payment w = (r1, w1)"
    by (cases "fn payment w")
  from shape [OF body]
  have pp: "postprocess_calls w1 = postprocess_calls w"
    and db: "case r1 of Inr t \<Rightarrow> transactions_db w1 = transactions_db w @ [t]
                      | Inl e \<Rightarrow> transactions_db w1 = transactions_db w"
    by simp_all
  show ?thesis
  proof (cases r1)
    case (Inl e)
    with run body True have "w' = w1"
      by (simp add: decorator_defs)
    with db Inl grew show ?thesis by simp
  next
    case (Inr t1)
    with db have db1: "transactions_db w1 = transactions_db w @ [t1]" by simp
    have same: "transactions_db w' = transactions_db w1"
      using run body True Inr
      by (auto simp: decorator_defs record_call_def split: if_splits)
    with db1 grew have "t1 = t" by simp
    with run body True Inr pp show ?thesis
      by (auto simp: decorator_defs record_call_def log_defs split: if_splits)
  qed
qed

subsection \<open>The active-payment guard\<close>

text \<open>
  C3. For a payment with \<open>is_active = false\<close>, each of the six mutating operations
  raises \<open>PaymentError\<close> (the inactive-payment message) and returns the world it was
  given: no gateway lookup and no plugin call is recorded, and the table of transactions
  is the same.
\<close>

theorem inactive_payment_rejected:
  "\<not> is_active payment \<Longrightarrow>
     (case run_operation env op payment w of
        (r, w') \<Rightarrow>
          r = Inl (PaymentError ''This payment is no longer active.'') \<and>
          plugin_calls w' = plugin_calls w \<and> calls w' = calls w \<and>
          transactions_db w' = transactions_db w)"
  by (simp add: run_operation_decorated inactive_guard)

theorem inactive_payment_rejected_witness:
  "\<not> is_active payment_inactive \<and>
   (case run_operation env_ok Void payment_inactive world_captured of
      (r, w') \<Rightarrow>
        r = Inl (PaymentError ''This payment is no longer active.'') \<and>
        plugin_calls w' = plugin_calls world_captured \<and>
        calls w' = calls world_captured \<and>
        transactions_db w' = transactions_db world_captured)"
proof -
  have inactive: "\<not> is_active payment_inactive"
    by (simp add: payment_inactive_def)
  from inactive inactive_payment_rejected [OF inactive, where env = env_ok and op = Void and w = world_captured]
  show ?thesis by simp
qed

subsection \<open>Failed transactions are raised\<close>

text \<open>
  C9. For every operation, whenever the call created a transaction \<open>t\<close> (the table grew
  by \<open>t\<close>): if \<open>t\<close> is successful the call returns \<open>t\<close>; if it is not, the call raises
  \<open>PaymentError\<close> with the error recorded on \<open>t\<close>, or with the fixed message
  \<open>Transaction was unsuccessful\<close> when \<open>t\<close> records no error (\<open>None\<close> or the empty
  string, which Python's \<open>or\<close> treats alike).
\<close>

theorem unsuccessful_transaction_raises:
  assumes "run_operation env op payment w = (r, w')"
    and "transactions_db w' = transactions_db w @ [t]"
  shows "(is_success t \<longrightarrow> r = Inr t) \<and>
         (\<not> is_success t \<longrightarrow>
            (\<forall>m. error t = Some m \<and> m \<noteq> [] \<longrightarrow> r = Inl (PaymentError m)) \<and>
            (error t = None \<or> error t = Some [] \<longrightarrow>
               r = Inl (PaymentError ''Transaction was unsuccessful'')))"
proof -
  from assms(1)
  have run: "payment_postprocess (raise_payment_error
               (require_active_payment (operation_fn env op) payment)) w = (r, w')"
    by (simp add: run_operation_decorated)
  have "r = (if is_success t then Inr t
             else Inl (PaymentError (py_or (error t) GENERIC_TRANSACTION_ERROR)))"
    using decorated_outcome [OF run operation_fn_shape assms(2)] by simp
  then show ?thesis
    by (auto simp: py_or_def GENERIC_TRANSACTION_ERROR_def)
qed

theorem unsuccessful_transaction_raises_witness:
  "run_operation env_declining (Authorize ''tok'' False) payment_new world_empty =
     (Inl (PaymentError ''Card declined''),
      \<lparr>transactions_db =
         [\<lparr>txn_payment = 1, kind = AUTH, token = ''gw-2'', is_success = False,
           error = Some ''Card declined''\<rparr>],
       calls =
         [GatewayLookup (Some ''dummy''),
          PluginCall Authorize_payment (GatewayMember ''dummy'')
            \<lparr>pd_payment = 1, pd_token = Some ''tok'', pd_amount = None,
             pd_store_source = False\<rparr>]\<rparr>)"
proof -
  let ?t = "\<lparr>txn_payment = 1, kind = AUTH, token = ''gw-2'', is_success = False,
             error = Some ''Card declined''\<rparr>"
  obtain r w' where run:
    "run_operation env_declining (Authorize ''tok'' False) payment_new world_empty = (r, w')"
    by (cases "run_operation env_declining (Authorize ''tok'' False) payment_new world_empty")
  then have w': "w' = \<lparr>transactions_db = [?t],
       calls =
         [GatewayLookup (Some ''dummy''),
          PluginCall Authorize_payment (GatewayMember ''dummy'')
            \<lparr>pd_payment = 1, pd_token = Some ''tok'', pd_amount = None,
             pd_store_source = False\<rparr>]\<rparr>"
    by (auto simp: operation_defs decorator_defs comp_defs helper_defs env_declining_def env_ok_def declined_def payment_new_def world_empty_def Let_def)
  then have grew: "transactions_db w' = transactions_db world_empty @ [?t]"
    by (simp add: world_empty_def)
  from unsuccessful_transaction_raises [OF run grew]
  have "r = Inl (PaymentError ''Card declined'')" by simp
  with run w' show ?thesis by simp
qed

subsection \<open>When the post-processing hook runs\<close>

text \<open>
  C2, as stated, fails: when the plugin raises during \<open>authorize\<close>, a failed transaction
  is produced and persisted, and the call ends in \<open>raise_payment_error\<close> below
  \<open>payment_postprocess\<close>, so the hook never sees the transaction.
\<close>

theorem postprocess_skipped_counterexample:
  "transactions_db (snd (authorize env_raising payment_new ''tok'' False world_empty)) =
     [\<lparr>txn_payment = 1, kind = AUTH, token = ''tok'', is_success = False,
       error = Some ''Oops! Something went wrong.''\<rparr>] \<and>
   postprocess_calls (snd (authorize env_raising payment_new ''tok'' False world_empty)) = []"
  by (simp add: operation_defs decorator_defs comp_defs helper_defs env_raising_def env_ok_def payment_new_def world_empty_def log_defs
        Let_def ERROR_MSG_def)

text \<open>
  C2, amended. For every operation, whenever the call created a transaction \<open>t\<close>: the
  post-processing hook runs on \<open>t\<close> and its payment, once, exactly when \<open>t\<close> is
  successful; for an unsuccessful \<open>t\<close> the hook does not run.
\<close>

theorem postprocess_iff_success:
  assumes "run_operation env op payment w = (r, w')"
    and "transactions_db w' = transactions_db w @ [t]"
  shows "postprocess_calls w' =
           postprocess_calls w @
             (if is_success t then [GatewayPostprocess t (txn_payment t)] else [])"
proof -
  from assms(1)
  have run: "payment_postprocess (raise_payment_error
               (require_active_payment (operation_fn env op) payment)) w = (r, w')"
    by (simp add: run_operation_decorated)
  from decorated_outcome [OF run operation_fn_shape assms(2)]
  show ?thesis by simp
qed

theorem postprocess_iff_success_witness:
  "postprocess_calls
     (snd (run_operation env_ok (Capture None False) payment_new world_authorized)) =
     [GatewayPostprocess
        \<lparr>txn_payment = 1, kind = CAPTURE, token = ''gw-1'', is_success = True,
         error = None\<rparr> 1]"
proof -
  let ?t = "\<lparr>txn_payment = 1, kind = CAPTURE, token = ''gw-1'', is_success = True,
             error = None\<rparr>"
  obtain r w' where run:
    "run_operation env_ok (Capture None False) payment_new world_authorized = (r, w')"
    by (cases "run_operation env_ok (Capture None False) payment_new world_authorized")
  then have "transactions_db w' = [auth_txn, ?t]"
    by (auto simp: operation_defs decorator_defs comp_defs helper_defs env_ok_def approved_def payment_new_def world_authorized_def auth_txn_def Let_def)
  then have grew: "transactions_db w' = transactions_db world_authorized @ [?t]"
    by (simp add: world_authorized_def)
  from postprocess_iff_success [OF run grew]
  have "postprocess_calls w' = [GatewayPostprocess ?t 1]"
    by (simp add: log_defs world_authorized_def)
  with run show ?thesis by simp
qed

subsection \<open>A gateway fault during authorize\<close>

text \<open>
  C4. On an active payment that passes \<open>clean_authorize\<close> and whose gateway resolves, if
  the plugin raises during \<open>authorize\<close>, or returns a response that
  \<open>validate_gateway_response\<close> rejects, then one transaction with kind \<open>AUTH\<close>,
  \<open>is_success = false\<close> and error \<open>Oops! Something went wrong.\<close> is appended to the
  table, and the call raises \<open>PaymentError\<close> with that same message.
\<close>

theorem authorize_gateway_fault_recorded:
  assumes active: "is_active payment"
    and clean: "clean_authorize env payment = None"
    and resolved: "Gateway_call env (gateway payment) = Inr g"
    and fault:
      "(\<exists>e. plugin_manager env Authorize_payment g
              (create_payment_information payment (Some tok) None store_source) = Inl e) \<or>
       (\<exists>resp e.
          plugin_manager env Authorize_payment g
            (create_payment_information payment (Some tok) None store_source) = Inr resp \<and>
          validate_gateway_response env resp = Some e)"
  shows "\<exists>w'. authorize env payment tok store_source w =
                (Inl (PaymentError ''Oops! Something went wrong.''), w') \<and>
              transactions_db w' =
                transactions_db w @
                  [\<lparr>txn_payment = pk payment, kind = AUTH, token = tok, is_success = False,
                    error = Some ''Oops! Something went wrong.''\<rparr>]"
proof -
  let ?d = "create_payment_information payment (Some tok) None store_source"
  let ?w1 = "record_call (PluginCall Authorize_payment g ?d)
               (record_call (GatewayLookup (gateway payment)) w)"
  have fetch: "fetch_gateway_response env (plugin_call env Authorize_payment g ?d)
                 (record_call (GatewayLookup (gateway payment)) w) =
               (Inr (None, Some ERROR_MSG), ?w1)"
    using fault
    by (auto simp: fetch_gateway_response_def plugin_call_def split: exn.splits)
  have body: "authorize_fn env tok store_source payment w =
                create_transaction payment AUTH ?d (Some ERROR_MSG) None ?w1"
    using clean resolved fetch
    by (simp add: authorize_fn_def bindE_def check_def ret_def get_gateway_def Let_def)
  show ?thesis
    using active
    by (simp add: authorize_def decorator_defs body create_transaction_def
          create_payment_information_def record_call_def py_or_def ERROR_MSG_def Let_def)
qed

theorem authorize_gateway_fault_recorded_witness:
  "(\<exists>w'. authorize env_raising payment_new ''tok'' False world_empty =
           (Inl (PaymentError ''Oops! Something went wrong.''), w') \<and>
         transactions_db w' =
           [\<lparr>txn_payment = 1, kind = AUTH, token = ''tok'', is_success = False,
             error = Some ''Oops! Something went wrong.''\<rparr>]) \<and>
   (\<exists>w'. authorize env_malformed payment_new ''tok'' False world_empty =
           (Inl (PaymentError ''Oops! Something went wrong.''), w') \<and>
         transactions_db w' =
           [\<lparr>txn_payment = 1, kind = AUTH, token = ''tok'', is_success = False,
             error = Some ''Oops! Something went wrong.''\<rparr>])"
proof -
  have active: "is_active payment_new"
    by (simp add: payment_new_def)
  have clean1: "clean_authorize env_raising payment_new = None"
    and clean2: "clean_authorize env_malformed payment_new = None"
    by (simp_all add: env_raising_def env_malformed_def env_ok_def payment_new_def)
  have res1: "Gateway_call env_raising (gateway payment_new) = Inr (GatewayMember ''dummy'')"
    and res2: "Gateway_call env_malformed (gateway payment_new) = Inr (GatewayMember ''dummy'')"
    by (simp_all add: env_raising_def env_malformed_def env_ok_def payment_new_def)
  have fault1:
    "(\<exists>e. plugin_manager env_raising Authorize_payment (GatewayMember ''dummy'')
            (create_payment_information payment_new (Some ''tok'') None False) = Inl e) \<or>
     (\<exists>resp e.
        plugin_manager env_raising Authorize_payment (GatewayMember ''dummy'')
          (create_payment_information payment_new (Some ''tok'') None False) = Inr resp \<and>
        validate_gateway_response env_raising resp = Some e)"
    by (simp add: env_raising_def env_ok_def payment_new_def)
  have fault2:
    "(\<exists>e. plugin_manager env_malformed Authorize_payment (GatewayMember ''dummy'')
            (create_payment_information payment_new (Some ''tok'') None False) = Inl e) \<or>
     (\<exists>resp e.
        plugin_manager env_malformed Authorize_payment (GatewayMember ''dummy'')
          (create_payment_information payment_new (Some ''tok'') None False) = Inr resp \<and>
        validate_gateway_response env_malformed resp = Some e)"
    by (simp add: env_malformed_def env_ok_def approved_def payment_new_def)
  from authorize_gateway_fault_recorded [OF active clean1 res1 fault1, of world_empty]
       authorize_gateway_fault_recorded [OF active clean2 res2 fault2, of world_empty]
  show ?thesis
    by (simp add: world_empty_def payment_new_def)
qed

subsection \<open>The refund guards\<close>

text \<open>
  C5, as stated, fails: for the amount \<open>Decimal('NaN')\<close> the comparison \<open>amount <= 0\<close>
  of \<open>_validate_refund_amound\<close> raises \<open>InvalidOperation\<close>, so the call does not
  raise \<open>PaymentError\<close> although the amount is not in range.
\<close>

theorem refund_nan_counterexample:
  "refund env_ok payment_captured (Some NaN) world_captured =
     (Inl InvalidOperation, world_captured)"
  by (simp add: refund_def refund_fn_def decorator_defs validate_refund_amound_def
        bindE_def lift_def payment_captured_def Let_def)

text \<open>
  C5, amended. For every refund call, with \<open>a\<close> the amount given or, when omitted, the
  payment's captured amount: a plugin call is made only if \<open>0 < a \<le> captured_amount\<close>
  and \<open>can_refund()\<close> holds. Otherwise, when \<open>a\<close> is not a NaN, the call raises
  \<open>PaymentError\<close> and returns the world it was given, so no transaction is created.
  When \<open>a\<close> is a NaN the world is returned as given too, and on an active payment the
  exception is \<open>InvalidOperation\<close>.
\<close>

theorem refund_guarded:
  assumes "refund env payment amount w = (r, w')"
    and "a = refund_amount payment amount"
  shows "(plugin_calls w' \<noteq> plugin_calls w \<longrightarrow>
            refundable_amount payment a \<and> can_refund payment) \<and>
         (a \<noteq> NaN \<and> \<not> (refundable_amount payment a \<and> can_refund payment) \<longrightarrow>
            (\<exists>m. r = Inl (PaymentError m)) \<and> w' = w \<and>
            transactions_db w' = transactions_db w) \<and>
         (a = NaN \<longrightarrow>
            w' = w \<and> transactions_db w' = transactions_db w \<and>
            (is_active payment \<longrightarrow> r = Inl InvalidOperation))"
proof (cases "is_active payment")
  case False
  with assms(1) have "r = Inl (PaymentError ''This payment is no longer active.'') \<and> w' = w"
    by (simp add: refund_def inactive_guard)
  with False show ?thesis by simp
next
  case True
  note active = True
  from assms(2) have amount: "(case amount of None \<Rightarrow> Finite (captured_amount payment)
                                | Some x \<Rightarrow> x) = a"
    by (simp add: refund_amount_def)
  show ?thesis
  proof (cases "refundable_amount payment a \<and> can_refund payment")
    case True
    then have "a \<noteq> NaN" by auto
    with True show ?thesis by simp
  next
    case False
    have rejected: "(if a = NaN then r = Inl InvalidOperation
                     else (\<exists>m. r = Inl (PaymentError m))) \<and> w' = w"
    proof (cases a)
      case (Finite x)
      with assms(1) active amount False show ?thesis
        by (auto simp: refund_def refund_fn_def decorator_defs validate_refund_amound_def
              decimal_gt_def bindE_def lift_def raise_def ret_def Let_def
              split: if_splits)
    next
      case Infinity
      with assms(1) active amount show ?thesis
        by (auto simp: refund_def refund_fn_def decorator_defs validate_refund_amound_def
              decimal_gt_def bindE_def lift_def raise_def Let_def)
    next
      case NegInfinity
      with assms(1) active amount show ?thesis
        by (auto simp: refund_def refund_fn_def decorator_defs validate_refund_amound_def
              bindE_def lift_def raise_def Let_def)
    next
      case NaN
      with assms(1) active amount show ?thesis
        by (auto simp: refund_def refund_fn_def decorator_defs validate_refund_amound_def
              bindE_def lift_def Let_def)
    qed
    with False show ?thesis by auto
  qed
qed

theorem refund_guarded_witness:
  "refund env_ok payment_captured (Some (Finite 150)) world_captured =
     (Inl (PaymentError ''Cannot refund more than captured''), world_captured) \<and>
   Finite 150 \<noteq> NaN \<and>
   \<not> (refundable_amount payment_captured (Finite 150) \<and> can_refund payment_captured) \<and>
   plugin_calls (snd (refund env_ok payment_captured None world_captured)) \<noteq>
     plugin_calls world_captured \<and>
   refundable_amount payment_captured (refund_amount payment_captured None) \<and>
   can_refund payment_captured \<and>
   refund env_ok payment_captured (Some NaN) world_captured =
     (Inl InvalidOperation, world_captured)"
proof -
  obtain r1 w1 where run1:
    "refund env_ok payment_captured (Some (Finite 150)) world_captured = (r1, w1)"
    by (cases "refund env_ok payment_captured (Some (Finite 150)) world_captured")
  have bad: "Finite 150 \<noteq> NaN \<and>
     \<not> (refundable_amount payment_captured (Finite 150) \<and> can_refund payment_captured)"
    by (simp add: payment_captured_def)
  have a1: "Finite 150 = refund_amount payment_captured (Some (Finite 150))"
    by (simp add: refund_amount_def)
  from refund_guarded [OF run1 a1] bad
  have "(\<exists>m. r1 = Inl (PaymentError m)) \<and> w1 = world_captured"
    by blast
  moreover from run1 have "r1 = Inl (PaymentError ''Cannot refund more than captured'') \<or>
                           (\<forall>m. r1 \<noteq> Inl (PaymentError m))"
    by (auto simp: refund_def refund_fn_def decorator_defs validate_refund_amound_def
          decimal_gt_def bindE_def lift_def raise_def payment_captured_def Let_def)
  ultimately have first: "refund env_ok payment_captured (Some (Finite 150)) world_captured =
     (Inl (PaymentError ''Cannot refund more than captured''), world_captured)"
    using run1 by auto
  obtain r2 w2 where run2: "refund env_ok payment_captured None world_captured = (r2, w2)"
    by (cases "refund env_ok payment_captured None world_captured")
  then have called: "plugin_calls w2 \<noteq> plugin_calls world_captured"
    by (auto simp: operation_defs decorator_defs comp_defs helper_defs decimal_gt_def
          env_ok_def approved_def payment_captured_def world_captured_def auth_txn_def
          capture_txn_def log_defs Let_def)
  from refund_guarded [OF run2 refl] called
  have second: "refundable_amount payment_captured (refund_amount payment_captured None) \<and>
        can_refund payment_captured"
    by blast
  obtain r3 w3 where run3:
    "refund env_ok payment_captured (Some NaN) world_captured = (r3, w3)"
    by (cases "refund env_ok payment_captured (Some NaN) world_captured")
  have a3: "NaN = refund_amount payment_captured (Some NaN)"
    by (simp add: refund_amount_def)
  have "is_active payment_captured"
    by (simp add: payment_captured_def)
  with refund_guarded [OF run3 a3] have "r3 = Inl InvalidOperation \<and> w3 = world_captured"
    by blast
  with run3 have third: "refund env_ok payment_captured (Some NaN) world_captured =
     (Inl InvalidOperation, world_captured)"
    by simp
  from first bad run2 called second third show ?thesis by simp
qed

text \<open>
  C10. For an active payment with \<open>captured_amount \<le> 0\<close>, \<open>refund\<close> with no amount
  raises \<open>PaymentError\<close> with the message \<open>Amount should be a positive number.\<close> and
  returns the world it was given: the gateway was not looked up, no plugin was called and
  no transaction was created.
\<close>

theorem refund_default_amount_not_positive:
  "is_active payment \<Longrightarrow> captured_amount payment \<le> 0 \<Longrightarrow>
     refund env payment None w =
       (Inl (PaymentError ''Amount should be a positive number.''), w)"
  by (simp add: refund_def refund_fn_def decorator_defs validate_refund_amound_def
        bindE_def lift_def raise_def Let_def)

theorem refund_default_amount_not_positive_witness:
  "is_active payment_new \<and> captured_amount payment_new \<le> 0 \<and>
   refund env_ok payment_new None world_authorized =
     (Inl (PaymentError ''Amount should be a positive number.''), world_authorized)"
proof -
  have active: "is_active payment_new" and zero: "captured_amount payment_new \<le> 0"
    by (simp_all add: payment_new_def)
  from active zero
    refund_default_amount_not_positive [OF active zero, of env_ok world_authorized]
  show ?thesis by simp
qed

subsection \<open>Where the active-payment guard is applied\<close>

text \<open>
  C7, as stated, fails: \<open>create_payment_form\<close> carries the \<open>require_active_payment\<close>
  decorator, so on an inactive payment it raises the inactive-payment error.
\<close>

theorem create_payment_form_guarded_counterexample:
  "create_payment_form env_ok payment_inactive ''data'' world_empty =
     (Inl (PaymentError ''This payment is no longer active.''), world_empty)"
  by (simp add: create_payment_form_def require_active_payment_def raise_def
        payment_inactive_def)

text \<open>
  C7, amended. The active-payment check is applied to every mutating operation and to
  \<open>create_payment_form\<close>: on an inactive payment each raises the inactive-payment error.
  It is not applied to \<open>get_client_token\<close>, whose outcome is the same whatever
  \<open>is_active\<close> is and is the plugin's answer when the gateway resolves, nor to
  \<open>list_gateways\<close> and \<open>list_payment_sources\<close>, which take no payment and return the
  plugin manager's answer.
\<close>

theorem active_check_scope:
  "(\<not> is_active payment \<longrightarrow>
      run_operation env op payment w =
        (Inl (PaymentError ''This payment is no longer active.''), w)) \<and>
   (\<not> is_active payment \<longrightarrow>
      create_payment_form env payment data w =
        (Inl (PaymentError ''This payment is no longer active.''), w)) \<and>
   get_client_token env (payment\<lparr>is_active := b\<rparr>) w = get_client_token env payment w \<and>
   (Gateway_call env (gateway payment) = Inr g \<longrightarrow>
      fst (get_client_token env payment w) =
        plugin_get_client_token env g (create_payment_information payment None None False)) \<and>
   list_gateways env w = (plugin_list_payment_gateways env, w) \<and>
   list_payment_sources env gw customer_id w =
     (plugin_list_payment_sources env gw customer_id, w)"
proof -
  have guarded: "\<not> is_active payment \<longrightarrow>
      run_operation env op payment w =
        (Inl (PaymentError ''This payment is no longer active.''), w)"
    by (simp add: run_operation_decorated inactive_guard)
  have form: "\<not> is_active payment \<longrightarrow>
      create_payment_form env payment data w =
        (Inl (PaymentError ''This payment is no longer active.''), w)"
    by (simp add: create_payment_form_def require_active_payment_def raise_def)
  have client: "get_client_token env (payment\<lparr>is_active := b\<rparr>) w =
      get_client_token env payment w"
    by (simp add: get_client_token_def get_gateway_def create_payment_information_def
          bindE_def Let_def)
  have answer: "Gateway_call env (gateway payment) = Inr g \<longrightarrow>
      fst (get_client_token env payment w) =
        plugin_get_client_token env g (create_payment_information payment None None False)"
    by (simp add: get_client_token_def get_gateway_def bindE_def lift_def Let_def)
  have lists: "list_gateways env w = (plugin_list_payment_gateways env, w)"
    "list_payment_sources env gw customer_id w =
       (plugin_list_payment_sources env gw customer_id, w)"
    by (simp_all add: list_gateways_def list_payment_sources_def lift_def)
  from guarded form client answer lists show ?thesis by blast
qed

theorem active_check_scope_witness:
  "\<not> is_active payment_inactive \<and>
   run_operation env_ok (Refund None) payment_inactive world_captured =
     (Inl (PaymentError ''This payment is no longer active.''), world_captured) \<and>
   create_payment_form env_ok payment_inactive ''data'' world_captured =
     (Inl (PaymentError ''This payment is no longer active.''), world_captured) \<and>
   Gateway_call env_ok (gateway payment_inactive) = Inr (GatewayMember ''dummy'') \<and>
   fst (get_client_token env_ok payment_inactive world_captured) = Inr ''client-token''"
proof -
  have inactive: "\<not> is_active payment_inactive"
    by (simp add: payment_inactive_def)
  have resolved: "Gateway_call env_ok (gateway payment_inactive) = Inr (GatewayMember ''dummy'')"
    by (simp add: env_ok_def payment_inactive_def payment_captured_def)
  from inactive resolved
    active_check_scope [where payment = payment_inactive and env = env_ok
      and op = "Refund None" and w = world_captured and data = "''data''"
      and g = "GatewayMember ''dummy''"]
  show ?thesis
    by (simp add: env_ok_def)
qed

subsection \<open>Capture after a gateway fault\<close>

text \<open>
  C1 fails for \<open>capture\<close>. The payment is active, passes \<open>clean_capture\<close>, its gateway
  resolves and a successful \<open>AUTH\<close> transaction supplies the token, so the plugin is
  called; the plugin raises, the fetch step returns no response, and reading
  \<open>response.card_info\<close> raises \<open>AttributeError\<close> before \<open>create_transaction\<close> is
  reached. The table of transactions is unchanged: no transaction records the failed
  capture. The same holds when the response is rejected by the validator.
\<close>

theorem capture_gateway_fault_no_transaction:
  "capture env_raising payment_new None False world_authorized =
     (Inl (AttributeError ''card_info''),
      \<lparr>transactions_db = [auth_txn],
       calls =
         [GatewayLookup (Some ''dummy''),
          PluginCall Capture_payment (GatewayMember ''dummy'')
            \<lparr>pd_payment = 1, pd_token = Some ''auth-1'', pd_amount = Some (Finite 100),
             pd_store_source = False\<rparr>]\<rparr>) \<and>
   capture env_malformed payment_new None False world_authorized =
     (Inl (AttributeError ''card_info''),
      \<lparr>transactions_db = [auth_txn],
       calls =
         [GatewayLookup (Some ''dummy''),
          PluginCall Capture_payment (GatewayMember ''dummy'')
            \<lparr>pd_payment = 1, pd_token = Some ''auth-1'', pd_amount = Some (Finite 100),
             pd_store_source = False\<rparr>]\<rparr>)"
  by (simp add: operation_defs decorator_defs comp_defs helper_defs env_raising_def env_malformed_def env_ok_def approved_def payment_new_def
        world_authorized_def auth_txn_def Let_def)

text \<open>
  The general form: whenever the fetch step of \<open>capture\<close> gives no response, the body
  raises \<open>AttributeError\<close> and the table of transactions is the one before the call.
\<close>

lemma capture_fn_fault:
  assumes "clean_capture env payment
             (case amount of None \<Rightarrow> Finite (get_charge_amount payment) | Some a \<Rightarrow> a) =
           None"
    and "Gateway_call env (gateway payment) = Inr g"
    and "get_past_transaction_token payment AUTH
           (record_call (GatewayLookup (gateway payment)) w) = (Inr tok, w1)"
    and "fetch_gateway_response env
           (plugin_call env Capture_payment g
              (create_payment_information payment (Some tok)
                 (Some (case amount of
                          None \<Rightarrow> Finite (get_charge_amount payment) | Some a \<Rightarrow> a))
                 store_source)) w1 = (Inr (None, err), w2)"
  shows "capture_fn env amount store_source payment w = (Inl (AttributeError ''card_info''), w2)"
  using assms
  by (simp add: capture_fn_def bindE_def check_def ret_def raise_def get_gateway_def Let_def)

text \<open>
  The five other operations do record the failed attempt: when their fetch step gives no
  response, the body appends one unsuccessful transaction carrying the error message.
\<close>

lemma authorize_fn_fault:
  assumes "clean_authorize env payment = None"
    and "Gateway_call env (gateway payment) = Inr g"
    and "fetch_gateway_response env
           (plugin_call env Authorize_payment g
              (create_payment_information payment (Some tok) None store_source))
           (record_call (GatewayLookup (gateway payment)) w) = (Inr (None, Some m), w2)"
  shows "\<exists>t. authorize_fn env tok store_source payment w =
               (Inr t, w2\<lparr>transactions_db := transactions_db w2 @ [t]\<rparr>) \<and>
             \<not> is_success t \<and> error t = Some m"
  using assms
  by (simp add: authorize_fn_def bindE_def check_def ret_def get_gateway_def
        create_transaction_def Let_def)

subsection \<open>Gateway resolution\<close>

text \<open>
  C8 fails. With an unrecognised or unset gateway name, \<open>_get_gateway\<close> never raises
  \<open>ImproperlyConfigured\<close>: an \<open>AttributeError\<close> of the constructor call enters the
  handler, which raises \<open>UnboundLocalError\<close> while it builds the message, and any other
  exception of the constructor call (the \<open>ValueError\<close> of an enumeration) passes
  through unhandled. No transaction is created and the exception is not a
  \<open>PaymentError\<close>.
\<close>

theorem unknown_gateway_not_improperly_configured:
  "process_payment env_attribute_error payment_unknown_gateway ''tok'' False world_empty =
     (Inl (UnboundLocalError ''gateway''),
      \<lparr>transactions_db = [], calls = [GatewayLookup (Some ''nonexistent'')]\<rparr>) \<and>
   process_payment env_attribute_error payment_unset_gateway ''tok'' False world_empty =
     (Inl (UnboundLocalError ''gateway''),
      \<lparr>transactions_db = [], calls = [GatewayLookup None]\<rparr>) \<and>
   process_payment env_ok payment_unknown_gateway ''tok'' False world_empty =
     (Inl (ValueError ''not a valid Gateway''),
      \<lparr>transactions_db = [], calls = [GatewayLookup (Some ''nonexistent'')]\<rparr>)"
  by (simp add: operation_defs decorator_defs comp_defs helper_defs env_attribute_error_def env_ok_def payment_unknown_gateway_def
        payment_unset_gateway_def payment_new_def world_empty_def Let_def)

text \<open>
  The general form: \<open>_get_gateway\<close> raises \<open>ImproperlyConfigured\<close> only if the
  constructor call itself raised it.
\<close>

lemma get_gateway_improperly_configured:
  "get_gateway env payment w = (Inl (ImproperlyConfigured m), w') \<Longrightarrow>
     Gateway_call env (gateway payment) = Inl (ImproperlyConfigured m)"
  by (auto simp: get_gateway_def Let_def split: sum.splits exn.splits)

subsection \<open>The prior transaction token\<close>

text \<open>
  C6 fails in the message. On an active payment with no transaction at all, \<open>capture\<close>,
  \<open>void\<close> and \<open>confirm\<close> (looking for \<open>AUTH\<close>) raise \<open>PaymentError\<close> after the
  gateway lookup and before any plugin call. The message is the uninterpolated text of
  the literal; a lookup for \<open>CAPTURE\<close>, as \<open>refund\<close> makes, gives the same text, so
  the message names no kind.
\<close>

theorem missing_prior_transaction_message:
  "capture env_ok payment_new None False world_empty =
     (Inl (PaymentError ''Cannot find successful {kind.value} transaction''),
      \<lparr>transactions_db = [], calls = [GatewayLookup (Some ''dummy'')]\<rparr>) \<and>
   void env_ok payment_new world_empty =
     (Inl (PaymentError ''Cannot find successful {kind.value} transaction''),
      \<lparr>transactions_db = [], calls = [GatewayLookup (Some ''dummy'')]\<rparr>) \<and>
   confirm env_ok payment_new world_empty =
     (Inl (PaymentError ''Cannot find successful {kind.value} transaction''),
      \<lparr>transactions_db = [], calls = [GatewayLookup (Some ''dummy'')]\<rparr>) \<and>
   get_past_transaction_token payment_new AUTH world_empty =
     (Inl (PaymentError ''Cannot find successful {kind.value} transaction''), world_empty) \<and>
   get_past_transaction_token payment_new CAPTURE world_empty =
     (Inl (PaymentError ''Cannot find successful {kind.value} transaction''), world_empty)"
  by (simp add: operation_defs decorator_defs comp_defs helper_defs env_ok_def payment_new_def
        world_empty_def Let_def)

text \<open>
  The parts of the lookup that hold: without a successful transaction of the kind the
  helper raises and changes nothing; with one, the first such row of the payment's
  queryset supplies the token.
\<close>

lemma find_first_match:
  "\<forall>t \<in> set before. \<not> P t \<Longrightarrow> P x \<Longrightarrow> find P (before @ x # rest) = Some x"
  by (induction before) auto

lemma get_past_transaction_token_missing:
  assumes "\<forall>t \<in> set (transactions payment w). \<not> (kind t = k \<and> is_success t)"
  shows "get_past_transaction_token payment k w =
           (Inl (PaymentError ''Cannot find successful {kind.value} transaction''), w)"
proof -
  from assms have "find (\<lambda>t. kind t = k \<and> is_success t) (transactions payment w) = None"
    by (auto simp: find_None_iff)
  then show ?thesis
    by (simp add: get_past_transaction_token_def)
qed

lemma get_past_transaction_token_found:
  assumes "transactions payment w = before @ txn # rest"
    and "\<forall>t \<in> set before. \<not> (kind t = k \<and> is_success t)"
    and "kind txn = k" and "is_success txn"
  shows "get_past_transaction_token payment k w = (Inr (token txn), w)"
proof -
  from assms(2-4)
  have "find (\<lambda>t. kind t = k \<and> is_success t) (before @ txn # rest) = Some txn"
    by (intro find_first_match) auto
  with assms(1) show ?thesis
    by (simp add: get_past_transaction_token_def)
qed

end
